theory Spec2Isabelle
  imports Main "HOL-Library.AList"
begin

section \<open>Product configuration lifecycle of the Google services manager\<close>

text \<open>
  A shallow embedding of \<^verbatim>\<open>ServiceManager\<close> (\<^verbatim>\<open>src/services/service_mgmt.py\<close>): the
  three operations \<^verbatim>\<open>enable_apis\<close>, \<^verbatim>\<open>disable_apis\<close> and \<^verbatim>\<open>get_status\<close> over a document
  container.  Python dictionaries are association lists in insertion order, the values
  they hold are JSON values, every \<^verbatim>\<open>raise\<close> is an \<open>Inl\<close> result, and the container the
  manager holds is passed in and returned.  The operations lower the product code with
  \<^verbatim>\<open>str.lower()\<close>; the case mapping that the Python runtime applies to a string with
  characters outside ASCII is a parameter of each operation, its first one.
\<close>

subsection \<open>JSON values and Python dictionaries\<close>

text \<open>
  The values of a \<^verbatim>\<open>Dict[str, Any]\<close> that arrives as a request body or comes back from the
  document store.  Numbers are the integers only: no operation of the manager looks
  inside a number.
\<close>

datatype json =
    JNull
  | JBool bool
  | JInt int
  | JStr string
  | JList "json list"
  | JObj "(string \<times> json) list"

type_synonym doc = "(string \<times> json) list"

text \<open>
  The exceptions of the code.  \<open>NotInitialized\<close> is
  \<^verbatim>\<open>Exception("Cosmos DB not initialized")\<close>; \<open>Store e\<close> is an exception raised by the
  container client; the other three are the Python exceptions of the same name.
\<close>

datatype store_error = NotFound | BadRequest | ServiceUnavailable

datatype error =
    NotInitialized
  | Store store_error
  | AttributeError
  | KeyError string
  | TypeError

text \<open>\<^verbatim>\<open>d.get(k, default)\<close> on a dictionary.\<close>

definition dict_get :: "doc \<Rightarrow> string \<Rightarrow> json \<Rightarrow> json" where
  "dict_get d k dflt = (case map_of d k of None \<Rightarrow> dflt | Some v \<Rightarrow> v)"

text \<open>
  \<^verbatim>\<open>v.get(k, default)\<close> on a value of any type: only a dictionary has the method, every
  other value raises \<^verbatim>\<open>AttributeError\<close>.
\<close>

fun py_get :: "json \<Rightarrow> string \<Rightarrow> json \<Rightarrow> error + json" where
  "py_get (JObj d) k dflt = Inr (dict_get d k dflt)"
| "py_get _ k dflt = Inl AttributeError"

text \<open>\<^verbatim>\<open>config.get(k1, {}).get(k2, default)\<close>.\<close>

definition sub_get :: "doc \<Rightarrow> string \<Rightarrow> string \<Rightarrow> json \<Rightarrow> error + json" where
  "sub_get config k1 k2 dflt = py_get (dict_get config k1 (JObj [])) k2 dflt"

text \<open>
  The elements a \<^verbatim>\<open>for s in v\<close> runs through: the items of a list, the keys of a
  dictionary, the one-character strings of a string; any other value raises
  \<^verbatim>\<open>TypeError\<close>.
\<close>

fun py_iter :: "json \<Rightarrow> error + json list" where
  "py_iter (JList xs) = Inr xs"
| "py_iter (JObj d) = Inr (map (\<lambda>p. JStr (fst p)) d)"
| "py_iter (JStr s) = Inr (map (\<lambda>c. JStr [c]) s)"
| "py_iter _ = Inl TypeError"

text \<open>\<^verbatim>\<open>s in services\<close> for a list of strings: a value that is not a string equals none.\<close>

fun py_in :: "json \<Rightarrow> string list \<Rightarrow> bool" where
  "py_in (JStr t) services = (t \<in> set services)"
| "py_in _ services = False"

subsection \<open>The document container\<close>

text \<open>
  The container client is a collaborator outside the repository.  Its model holds the
  documents it stores; a document is addressed by the pair of its partition key (the
  container is partitioned by \<^verbatim>\<open>productCode\<close>) and its \<^verbatim>\<open>id\<close>, both read from the document
  itself.  While \<open>outage\<close> holds every request raises; an outage neither begins nor
  ends within one operation of the manager.  A read returns the document as it was
  written: the properties the store adds on its own account are left out.
\<close>

record container =
  items :: "doc list"
  outage :: bool

definition doc_key :: "doc \<Rightarrow> (string \<times> string) option" where
  "doc_key d =
     (case map_of d ''productCode'' of
        Some (JStr p) \<Rightarrow>
          (case map_of d ''id'' of Some (JStr i) \<Rightarrow> Some (p, i) | _ \<Rightarrow> None)
      | _ \<Rightarrow> None)"

text \<open>\<^verbatim>\<open>container.read_item(item, partition_key=pk)\<close>.\<close>

definition read_item :: "container \<Rightarrow> string \<Rightarrow> string \<Rightarrow> error + doc" where
  "read_item c item pk =
     (if outage c then Inl (Store ServiceUnavailable)
      else (case find (\<lambda>d. doc_key d = Some (pk, item)) (items c) of
              None \<Rightarrow> Inl (Store NotFound)
            | Some d \<Rightarrow> Inr d))"

text \<open>
  \<^verbatim>\<open>container.upsert_item(body)\<close>: the document with the same key is replaced, or the
  document is created.
\<close>

definition upsert_item :: "container \<Rightarrow> doc \<Rightarrow> error + container" where
  "upsert_item c body =
     (if outage c then Inl (Store ServiceUnavailable)
      else (case doc_key body of
              None \<Rightarrow> Inl (Store BadRequest)
            | Some k \<Rightarrow>
                Inr (c\<lparr>items := filter (\<lambda>d. doc_key d \<noteq> Some k) (items c) @ [body]\<rparr>)))"

subsection \<open>The manager\<close>

text \<open>
  \<^verbatim>\<open>self.container\<close> is \<^verbatim>\<open>None\<close> until \<^verbatim>\<open>_initialize_cosmos\<close> succeeds, and stays
  \<^verbatim>\<open>None\<close> when it fails: the manager is its container, if any.
\<close>

type_synonym manager = "container option"

text \<open>
  \<^verbatim>\<open>str.lower()\<close>.  A string of ASCII characters only is lowered character by
  character: the letters \<^verbatim>\<open>A\<close> to \<^verbatim>\<open>Z\<close> become \<^verbatim>\<open>a\<close> to \<^verbatim>\<open>z\<close>, every other character is
  kept.  Any other string is lowered by the case mapping of the Unicode character
  database of the Python runtime, which is no part of the repository and is the
  parameter \<open>unicode_lower\<close> here.
\<close>

definition is_ascii :: "string \<Rightarrow> bool" where
  "is_ascii s = list_all (\<lambda>c. (of_char c :: nat) < 128) s"

definition ascii_tolower :: "char \<Rightarrow> char" where
  "ascii_tolower c =
     (let n = (of_char c :: nat) in if 65 \<le> n \<and> n \<le> 90 then char_of (n + 32) else c)"

definition lower :: "(string \<Rightarrow> string) \<Rightarrow> string \<Rightarrow> string" where
  "lower unicode_lower s =
     (if is_ascii s then map ascii_tolower s else unicode_lower s)"

text \<open>
  \<^verbatim>\<open>f"{product_code.lower()}-google-config"\<close>, the expression that each of the three
  operations evaluates into \<^verbatim>\<open>config_id\<close>.
\<close>

definition config_id :: "(string \<Rightarrow> string) \<Rightarrow> string \<Rightarrow> string" where
  "config_id unicode_lower product_code =
     lower unicode_lower product_code @ ''-google-config''"

text \<open>
  \<^verbatim>\<open>if s in services: product_config[s] = config.get(s, {})\<close>, one of the four
  statements of \<^verbatim>\<open>enable_apis\<close> that attach the settings of a service.
\<close>

definition add_service :: "string \<Rightarrow> string list \<Rightarrow> doc \<Rightarrow> doc \<Rightarrow> doc" where
  "add_service s services config product_config =
     (if s \<in> set services
      then AList.update s (dict_get config s (JObj [])) product_config
      else product_config)"

text \<open>
  The document \<^verbatim>\<open>enable_apis\<close> builds; \<open>now\<close> is
  \<^verbatim>\<open>datetime.utcnow().isoformat()\<close>.
\<close>

definition product_config ::
  "(string \<Rightarrow> string) \<Rightarrow> string \<Rightarrow> string list \<Rightarrow> doc \<Rightarrow> string \<Rightarrow> doc"
where
  "product_config unicode_lower product_code services config now =
     add_service ''ads'' services config
       (add_service ''adsense'' services config
         (add_service ''tags'' services config
           (add_service ''analytics'' services config
              [(''id'', JStr (config_id unicode_lower product_code)),
               (''productCode'', JStr product_code),
               (''productName'', dict_get config ''productName'' (JStr product_code)),
               (''apis'', JObj [(''enabled'', JList (map JStr services))]),
               (''updatedAt'', JStr now)])))"

fun enable_apis ::
  "(string \<Rightarrow> string) \<Rightarrow> manager \<Rightarrow> string \<Rightarrow> string list \<Rightarrow> doc \<Rightarrow> string \<Rightarrow>
     (error + doc) \<times> manager"
where
  "enable_apis unicode_lower None product_code services config now =
     (Inl NotInitialized, None)"
| "enable_apis unicode_lower (Some c) product_code services config now =
     (case upsert_item c (product_config unicode_lower product_code services config now) of
        Inl e \<Rightarrow> (Inl e, Some c)
      | Inr c' \<Rightarrow>
          (Inr [(''success'', JBool True),
                (''productCode'', JStr product_code),
                (''enabledServices'', JList (map JStr services)),
                (''configId'', JStr (config_id unicode_lower product_code))],
           Some c'))"

text \<open>
  The document \<^verbatim>\<open>disable_apis\<close> writes back, from the document it read and the filtered
  list: \<^verbatim>\<open>config["apis"]["enabled"] = enabled\<close> raises \<^verbatim>\<open>KeyError\<close> when the document has
  no \<^verbatim>\<open>apis\<close>, then \<^verbatim>\<open>config["updatedAt"]\<close> is set.  An \<^verbatim>\<open>apis\<close> that is no dictionary
  does not support the assignment; \<open>disable_apis\<close> never gets that far with one, since
  the \<^verbatim>\<open>.get\<close> before it has raised.
\<close>

definition reduced_config :: "doc \<Rightarrow> json list \<Rightarrow> string \<Rightarrow> error + doc" where
  "reduced_config config enabled now =
     (case map_of config ''apis'' of
        None \<Rightarrow> Inl (KeyError ''apis'')
      | Some (JObj apis) \<Rightarrow>
          Inr (AList.update ''updatedAt'' (JStr now)
                (AList.update ''apis''
                   (JObj (AList.update ''enabled'' (JList enabled) apis)) config))
      | Some _ \<Rightarrow> Inl TypeError)"

fun disable_apis ::
  "(string \<Rightarrow> string) \<Rightarrow> manager \<Rightarrow> string \<Rightarrow> string list \<Rightarrow> string \<Rightarrow>
     (error + doc) \<times> manager"
where
  "disable_apis unicode_lower None product_code services now = (Inl NotInitialized, None)"
| "disable_apis unicode_lower (Some c) product_code services now =
     (case read_item c (config_id unicode_lower product_code) product_code of
        Inl e \<Rightarrow> (Inl e, Some c)
      | Inr config \<Rightarrow>
          (case sub_get config ''apis'' ''enabled'' (JList []) of
             Inl e \<Rightarrow> (Inl e, Some c)
           | Inr listed \<Rightarrow>
               (case py_iter listed of
                  Inl e \<Rightarrow> (Inl e, Some c)
                | Inr xs \<Rightarrow>
                    (case reduced_config config
                            (filter (\<lambda>s. \<not> py_in s services) xs) now of
                       Inl e \<Rightarrow> (Inl e, Some c)
                     | Inr config' \<Rightarrow>
                         (case upsert_item c config' of
                            Inl e \<Rightarrow> (Inl e, Some c)
                          | Inr c' \<Rightarrow>
                              (Inr [(''success'', JBool True),
                                    (''productCode'', JStr product_code),
                                    (''disabledServices'', JList (map JStr services)),
                                    (''remainingServices'',
                                       JList (filter (\<lambda>s. \<not> py_in s services) xs))],
                               Some c'))))))"

text \<open>
  The status \<^verbatim>\<open>get_status\<close> builds from the document it read; \<^verbatim>\<open>config.get(k)\<close> is
  \<^verbatim>\<open>None\<close> for a missing key.  The entries are evaluated in the order of the dictionary
  display, and the first that raises ends the evaluation.
\<close>

definition status_of :: "string \<Rightarrow> doc \<Rightarrow> error + doc" where
  "status_of product_code config =
     (case sub_get config ''apis'' ''enabled'' (JList []) of
        Inl e \<Rightarrow> Inl e
      | Inr enabled \<Rightarrow>
     (case sub_get config ''analytics'' ''enabled'' (JBool False) of
        Inl e \<Rightarrow> Inl e
      | Inr analytics \<Rightarrow>
     (case sub_get config ''tags'' ''enabled'' (JBool False) of
        Inl e \<Rightarrow> Inl e
      | Inr tags \<Rightarrow>
     (case sub_get config ''adsense'' ''enabled'' (JBool False) of
        Inl e \<Rightarrow> Inl e
      | Inr adsense \<Rightarrow>
     (case sub_get config ''ads'' ''enabled'' (JBool False) of
        Inl e \<Rightarrow> Inl e
      | Inr ads \<Rightarrow>
          Inr [(''productCode'', JStr product_code),
               (''productName'', dict_get config ''productName'' JNull),
               (''enabledServices'', enabled),
               (''analytics'', analytics),
               (''tags'', tags),
               (''adsense'', adsense),
               (''ads'', ads),
               (''updatedAt'', dict_get config ''updatedAt'' JNull)])))))"

text \<open>The status of the inner \<^verbatim>\<open>except Exception\<close> branch.\<close>

definition default_status :: "string \<Rightarrow> doc" where
  "default_status product_code =
     [(''productCode'', JStr product_code),
      (''enabledServices'', JList []),
      (''analytics'', JBool False),
      (''tags'', JBool False),
      (''adsense'', JBool False),
      (''ads'', JBool False)]"

text \<open>
  The inner \<^verbatim>\<open>try\<close> of \<^verbatim>\<open>get_status\<close> covers the read and the construction of the status;
  the check of the container comes before it and is not covered.
\<close>

fun get_status :: "(string \<Rightarrow> string) \<Rightarrow> manager \<Rightarrow> string \<Rightarrow> error + doc" where
  "get_status unicode_lower None product_code = Inl NotInitialized"
| "get_status unicode_lower (Some c) product_code =
     (case read_item c (config_id unicode_lower product_code) product_code of
        Inl e \<Rightarrow> Inr (default_status product_code)
      | Inr config \<Rightarrow>
          (case status_of product_code config of
             Inl e \<Rightarrow> Inr (default_status product_code)
           | Inr status \<Rightarrow> Inr status))"

subsection \<open>Observations used in the properties\<close>

text \<open>
  The document the operations of a manager address for a product code: what
  \<open>read_item\<close> returns for the key the three operations derive from it.
\<close>

definition stored_config :: "(string \<Rightarrow> string) \<Rightarrow> manager \<Rightarrow> string \<Rightarrow> doc option" where
  "stored_config unicode_lower m product_code =
     (case m of
        None \<Rightarrow> None
      | Some c \<Rightarrow>
          (case read_item c (config_id unicode_lower product_code) product_code of
             Inl e \<Rightarrow> None
           | Inr d \<Rightarrow> Some d))"

text \<open>
  The four service names: the names \<^verbatim>\<open>enable_apis\<close> tests the services for, and the
  entries \<^verbatim>\<open>get_status\<close> reads.
\<close>

definition known_services :: "string list" where
  "known_services = [''analytics'', ''tags'', ''adsense'', ''ads'']"

text \<open>The list a document holds under \<^verbatim>\<open>apis.enabled\<close>.\<close>

definition enabled_services :: "doc \<Rightarrow> json list" where
  "enabled_services d =
     (case map_of d ''apis'' of
        Some (JObj apis) \<Rightarrow>
          (case map_of apis ''enabled'' of Some (JList xs) \<Rightarrow> xs | _ \<Rightarrow> [])
      | _ \<Rightarrow> [])"

text \<open>
  A document keeps settings only for services it lists as enabled: each of the four
  service names with an entry in the document is in its \<^verbatim>\<open>apis.enabled\<close>.
\<close>

definition settings_within_enabled :: "doc \<Rightarrow> bool" where
  "settings_within_enabled d =
     list_all (\<lambda>s. map_of d s = None \<or> JStr s \<in> set (enabled_services d)) known_services"

text \<open>
  The entry of a document under a key, if any, is a dictionary; and the \<^verbatim>\<open>enabled\<close> field
  of that dictionary, \<^verbatim>\<open>False\<close> when the entry or the field is missing.
\<close>

definition dict_or_absent :: "doc \<Rightarrow> string \<Rightarrow> bool" where
  "dict_or_absent d k =
     (case map_of d k of None \<Rightarrow> True | Some (JObj st) \<Rightarrow> True | Some _ \<Rightarrow> False)"

definition enabled_flag :: "doc \<Rightarrow> string \<Rightarrow> json" where
  "enabled_flag d k =
     (case map_of d k of
        Some (JObj st) \<Rightarrow> dict_get st ''enabled'' (JBool False)
      | _ \<Rightarrow> JBool False)"

section \<open>Properties\<close>

subsection \<open>The container\<close>

lemma find_replaced: "P d \<Longrightarrow> find P (filter (\<lambda>x. \<not> P x) xs @ [d]) = Some d"
  by (induction xs) auto

lemma find_untouched:
  "\<not> Q d \<Longrightarrow> (\<And>x. Q x \<Longrightarrow> P x) \<Longrightarrow> find Q (filter P xs @ [d]) = find Q xs"
  by (induction xs) auto

lemma upsert_item_ok:
  "\<not> outage c \<Longrightarrow> doc_key d = Some k \<Longrightarrow>
   upsert_item c d = Inr (c\<lparr>items := filter (\<lambda>x. doc_key x \<noteq> Some k) (items c) @ [d]\<rparr>)"
  by (simp add: upsert_item_def)

lemma read_after_upsert:
  assumes "upsert_item c d = Inr c'" and "doc_key d = Some (p, i)"
  shows "read_item c' i p = Inr d"
proof -
  from assms have no: "\<not> outage c"
    by (auto simp: upsert_item_def split: if_splits)
  with assms have c': "c' = c\<lparr>items := filter (\<lambda>x. \<not> doc_key x = Some (p, i)) (items c) @ [d]\<rparr>"
    by (simp add: upsert_item_def)
  show ?thesis
    using no assms(2) find_replaced [of "\<lambda>x. doc_key x = Some (p, i)" d "items c"]
    by (simp add: c' read_item_def)
qed

lemma read_elsewhere_after_upsert:
  assumes "upsert_item c d = Inr c'" and "doc_key d = Some k" and "(p, i) \<noteq> k"
  shows "read_item c' i p = read_item c i p"
proof -
  from assms have no: "\<not> outage c"
    by (auto simp: upsert_item_def split: if_splits)
  with assms have c': "c' = c\<lparr>items := filter (\<lambda>x. doc_key x \<noteq> Some k) (items c) @ [d]\<rparr>"
    by (simp add: upsert_item_def)
  have "find (\<lambda>x. doc_key x = Some (p, i)) (filter (\<lambda>x. doc_key x \<noteq> Some k) (items c) @ [d])
        = find (\<lambda>x. doc_key x = Some (p, i)) (items c)"
    using assms(2,3) by (intro find_untouched) auto
  then show ?thesis
    by (simp add: c' read_item_def)
qed

lemma read_item_found:
  assumes "read_item c i p = Inr d"
  shows "\<not> outage c" and "doc_key d = Some (p, i)"
  using assms by (auto simp: read_item_def find_Some_iff split: if_splits option.splits)

subsection \<open>The document of \<open>enable_apis\<close>\<close>

lemma map_of_add_service:
  "map_of (add_service s services config d) k =
     (if s \<in> set services \<and> k = s then Some (dict_get config s (JObj [])) else map_of d k)"
  by (simp add: add_service_def update_conv')

lemma map_of_product_config_fixed:
  "map_of (product_config ul pc sv cfg now) ''id'' = Some (JStr (config_id ul pc))"
  "map_of (product_config ul pc sv cfg now) ''productCode'' = Some (JStr pc)"
  "map_of (product_config ul pc sv cfg now) ''productName'' =
     Some (dict_get cfg ''productName'' (JStr pc))"
  "map_of (product_config ul pc sv cfg now) ''apis'' =
     Some (JObj [(''enabled'', JList (map JStr sv))])"
  "map_of (product_config ul pc sv cfg now) ''updatedAt'' = Some (JStr now)"
  by (simp_all add: product_config_def map_of_add_service)

lemma doc_key_product_config:
  "doc_key (product_config ul pc sv cfg now) = Some (pc, config_id ul pc)"
  by (simp add: doc_key_def map_of_product_config_fixed)

lemma enable_apis_ok:
  assumes "\<not> outage c"
  shows "enable_apis ul (Some c) pc sv cfg now =
     (Inr [(''success'', JBool True), (''productCode'', JStr pc),
           (''enabledServices'', JList (map JStr sv)), (''configId'', JStr (config_id ul pc))],
      Some (c\<lparr>items := filter (\<lambda>x. doc_key x \<noteq> Some (pc, config_id ul pc)) (items c)
                          @ [product_config ul pc sv cfg now]\<rparr>))"
  using assms by (simp add: upsert_item_ok [OF _ doc_key_product_config])

lemma stored_after_enable:
  assumes "\<not> outage c"
  shows "stored_config ul (snd (enable_apis ul (Some c) pc sv cfg now)) pc =
         Some (product_config ul pc sv cfg now)"
proof -
  obtain c' where u: "upsert_item c (product_config ul pc sv cfg now) = Inr c'"
    using assms by (simp add: upsert_item_ok [OF _ doc_key_product_config])
  from read_after_upsert [OF u doc_key_product_config] u
  show ?thesis by (simp add: stored_config_def)
qed

subsection \<open>Lowering\<close>








subsection \<open>The document of \<open>disable_apis\<close> and further facts\<close>

lemma sub_get_dict:
  "map_of d k = Some (JObj st) \<Longrightarrow> sub_get d k f dflt = Inr (dict_get st f dflt)"
  by (simp add: sub_get_def dict_get_def)

lemma sub_get_flag:
  "dict_or_absent d k \<Longrightarrow> sub_get d k ''enabled'' (JBool False) = Inr (enabled_flag d k)"
  by (auto simp: dict_or_absent_def enabled_flag_def sub_get_def dict_get_def
           split: option.splits json.splits)

lemma reduced_config_ok:
  "map_of d ''apis'' = Some (JObj apis) \<Longrightarrow>
   reduced_config d en now =
     Inr (AList.update ''updatedAt'' (JStr now)
           (AList.update ''apis'' (JObj (AList.update ''enabled'' (JList en) apis)) d))"
  by (simp add: reduced_config_def)

lemma reduced_config_frame:
  assumes "reduced_config d en now = Inr d'" and "k \<noteq> ''apis''" and "k \<noteq> ''updatedAt''"
  shows "map_of d' k = map_of d k"
  using assms
  by (auto simp: reduced_config_def update_conv' split: option.splits json.splits)

lemma doc_key_reduced_config:
  assumes "reduced_config d en now = Inr d'"
  shows "doc_key d' = doc_key d"
  using reduced_config_frame [OF assms, of "''id''"]
        reduced_config_frame [OF assms, of "''productCode''"]
  by (simp add: doc_key_def split: option.splits json.splits)

lemma disable_apis_success:
  assumes "fst (disable_apis ul (Some c) pc sv now) = Inr r"
  shows "\<exists>d listed xs d' c'.
           read_item c (config_id ul pc) pc = Inr d
           \<and> sub_get d ''apis'' ''enabled'' (JList []) = Inr listed
           \<and> py_iter listed = Inr xs
           \<and> reduced_config d (filter (\<lambda>s. \<not> py_in s sv) xs) now = Inr d'
           \<and> upsert_item c d' = Inr c'
           \<and> snd (disable_apis ul (Some c) pc sv now) = Some c'"
  using assms by (auto split: sum.splits)

lemma disable_apis_ok:
  assumes r: "read_item c (config_id ul pc) pc = Inr d"
    and a: "map_of d ''apis'' = Some (JObj apis)"
    and e: "map_of apis ''enabled'' = Some (JList xs)"
  shows "disable_apis ul (Some c) pc sv now =
     (Inr [(''success'', JBool True), (''productCode'', JStr pc),
           (''disabledServices'', JList (map JStr sv)),
           (''remainingServices'', JList (filter (\<lambda>s. \<not> py_in s sv) xs))],
      Some (c\<lparr>items := filter (\<lambda>x. doc_key x \<noteq> Some (pc, config_id ul pc)) (items c)
                 @ [AList.update ''updatedAt'' (JStr now)
                     (AList.update ''apis''
                        (JObj (AList.update ''enabled''
                                 (JList (filter (\<lambda>s. \<not> py_in s sv) xs)) apis)) d)]\<rparr>))"
proof -
  let ?en = "filter (\<lambda>s. \<not> py_in s sv) xs"
  let ?d' = "AList.update ''updatedAt'' (JStr now)
               (AList.update ''apis'' (JObj (AList.update ''enabled'' (JList ?en) apis)) d)"
  have s: "sub_get d ''apis'' ''enabled'' (JList []) = Inr (JList xs)"
    using e by (simp add: sub_get_dict [OF a] dict_get_def)
  have rc: "reduced_config d ?en now = Inr ?d'"
    by (rule reduced_config_ok [OF a])
  have k: "doc_key ?d' = Some (pc, config_id ul pc)"
    using doc_key_reduced_config [OF rc] read_item_found(2) [OF r] by simp
  have u: "upsert_item c ?d' =
             Inr (c\<lparr>items := filter (\<lambda>x. doc_key x \<noteq> Some (pc, config_id ul pc)) (items c) @ [?d']\<rparr>)"
    by (rule upsert_item_ok [OF read_item_found(1) [OF r] k])
  show ?thesis
    by (simp add: r s rc u)
qed

lemma filter_py_in_names:
  "filter (\<lambda>s. \<not> py_in s sv) (map JStr ns) = map JStr (filter (\<lambda>n. n \<notin> set sv) ns)"
  by (induction ns) auto

lemma enabled_services_product_config:
  "enabled_services (product_config ul pc sv cfg now) = map JStr sv"
  by (simp add: enabled_services_def map_of_product_config_fixed)

lemma map_of_product_config_service:
  assumes "s \<in> set known_services"
  shows "map_of (product_config ul pc sv cfg now) s =
           (if s \<in> set sv then Some (dict_get cfg s (JObj [])) else None)"
  using assms
  by (auto simp: known_services_def product_config_def map_of_add_service)

lemma settings_within_enabled_product_config:
  "settings_within_enabled (product_config ul pc sv cfg now)"
  unfolding settings_within_enabled_def list_all_iff
  by (auto simp: map_of_product_config_service enabled_services_product_config)

lemma product_config_clock:
  "product_config ul pc sv cfg t2 = AList.update ''updatedAt'' (JStr t2) (product_config ul pc sv cfg t1)"
  by (simp add: product_config_def add_service_def)

lemma py_in_iff: "py_in x services \<longleftrightarrow> (\<exists>t \<in> set services. x = JStr t)"
  by (cases x) auto


lemma stored_after_disable:
  assumes r: "read_item c (config_id ul pc) pc = Inr d"
    and a: "map_of d ''apis'' = Some (JObj apis)"
    and e: "map_of apis ''enabled'' = Some (JList xs)"
  shows "\<exists>c'. snd (disable_apis ul (Some c) pc sv now) = Some c'
           \<and> read_item c' (config_id ul pc) pc =
               Inr (AList.update ''updatedAt'' (JStr now)
                     (AList.update ''apis''
                        (JObj (AList.update ''enabled''
                                 (JList (filter (\<lambda>s. \<not> py_in s sv) xs)) apis)) d))
           \<and> (\<forall>p i. (p, i) \<noteq> (pc, config_id ul pc) \<longrightarrow> read_item c' i p = read_item c i p)"
proof -
  let ?en = "filter (\<lambda>s. \<not> py_in s sv) xs"
  let ?d' = "AList.update ''updatedAt'' (JStr now)
               (AList.update ''apis'' (JObj (AList.update ''enabled'' (JList ?en) apis)) d)"
  let ?c' = "c\<lparr>items := filter (\<lambda>x. doc_key x \<noteq> Some (pc, config_id ul pc)) (items c) @ [?d']\<rparr>"
  have rc: "reduced_config d ?en now = Inr ?d'"
    by (rule reduced_config_ok [OF a])
  have k: "doc_key ?d' = Some (pc, config_id ul pc)"
    using doc_key_reduced_config [OF rc] read_item_found(2) [OF r] by simp
  have u: "upsert_item c ?d' = Inr ?c'"
    by (rule upsert_item_ok [OF read_item_found(1) [OF r] k])
  have 1: "snd (disable_apis ul (Some c) pc sv now) = Some ?c'"
    unfolding disable_apis_ok [OF r a e] by simp
  have 2: "read_item ?c' (config_id ul pc) pc = Inr ?d'"
    by (rule read_after_upsert [OF u k])
  have 3: "\<forall>p i. (p, i) \<noteq> (pc, config_id ul pc) \<longrightarrow> read_item ?c' i p = read_item c i p"
    using read_elsewhere_after_upsert [OF u k] by blast
  from 1 2 3 show ?thesis by blast
qed

subsection \<open>The claims\<close>

text \<open>
  Every property holds for every case mapping \<open>ul\<close> of the runtime.  The instances on
  concrete product codes take the identity for it: their product codes are ASCII
  strings, for which the mapping is not consulted.
\<close>

text \<open>
  C7. A manager whose container was never initialised fails each of the three
  operations with the "not initialized" error; \<open>get_status\<close> raises it too, and does not
  return the default status.
\<close>

theorem uninitialized_manager_fails:
  "enable_apis ul None product_code services config now = (Inl NotInitialized, None)
   \<and> disable_apis ul None product_code services now = (Inl NotInitialized, None)
   \<and> get_status ul None product_code = Inl NotInitialized
   \<and> get_status ul None product_code \<noteq> Inr (default_status product_code)"
  by simp

text \<open>
  C5. With a container present, whenever the read of the product's document fails, for
  whatever reason (the document is not there, or the store raises), \<open>get_status\<close>
  returns the default status and no error: the product code, an empty list of enabled
  services and the four service flags \<^verbatim>\<open>False\<close>, with no \<^verbatim>\<open>productName\<close> and no
  \<^verbatim>\<open>updatedAt\<close> entry.
\<close>

theorem status_default_when_read_fails:
  assumes "read_item c (config_id ul product_code) product_code = Inl e"
  shows "get_status ul (Some c) product_code =
           Inr [(''productCode'', JStr product_code),
                (''enabledServices'', JList []),
                (''analytics'', JBool False),
                (''tags'', JBool False),
                (''adsense'', JBool False),
                (''ads'', JBool False)]"
  using assms by (simp add: default_status_def)

theorem status_default_when_read_fails_witness:
  "read_item \<lparr>items = [], outage = False\<rparr> (config_id id ''NEWPRODUCT'') ''NEWPRODUCT''
     = Inl (Store NotFound)
   \<and> get_status id (Some \<lparr>items = [], outage = False\<rparr>) ''NEWPRODUCT'' =
           Inr [(''productCode'', JStr ''NEWPRODUCT''),
                (''enabledServices'', JList []),
                (''analytics'', JBool False),
                (''tags'', JBool False),
                (''adsense'', JBool False),
                (''ads'', JBool False)]"
proof -
  have r: "read_item \<lparr>items = [], outage = False\<rparr> (config_id id ''NEWPRODUCT'') ''NEWPRODUCT''
     = Inl (Store NotFound)"
    by (simp add: read_item_def)
  from r status_default_when_read_fails [OF r] show ?thesis by simp
qed

text \<open>
  C6. When the store answers and holds no document for the product code,
  \<open>disable_apis\<close> fails with the not-found error of the read, and the container it
  leaves is the container it found: no document is created.
\<close>

theorem disable_requires_document:
  assumes "\<not> outage c"
    and "\<forall>d \<in> set (items c). doc_key d \<noteq> Some (product_code, config_id ul product_code)"
  shows "disable_apis ul (Some c) product_code services now = (Inl (Store NotFound), Some c)"
proof -
  from assms(2)
  have "find (\<lambda>d. doc_key d = Some (product_code, config_id ul product_code)) (items c) = None"
    by (simp add: find_None_iff)
  with assms(1) have "read_item c (config_id ul product_code) product_code = Inl (Store NotFound)"
    by (simp add: read_item_def)
  then show ?thesis by simp
qed

theorem disable_requires_document_witness:
  "disable_apis id (Some \<lparr>items = [], outage = False\<rparr>) ''NEWPRODUCT'' [''analytics''] ''t1''
     = (Inl (Store NotFound), Some \<lparr>items = [], outage = False\<rparr>)"
  using disable_requires_document [where ul = id and c = "\<lparr>items = [], outage = False\<rparr>"
      and product_code = "''NEWPRODUCT''" and services = "[''analytics'']" and now = "''t1''"]
  by simp

text \<open>
  C1, as the code has it. For a stored document whose \<^verbatim>\<open>apis\<close> entry is a dictionary and
  whose entries for the four services, where present, are dictionaries, \<open>get_status\<close>
  returns the stored \<^verbatim>\<open>apis.enabled\<close> as \<^verbatim>\<open>enabledServices\<close> and, for each of the four
  service names, the \<^verbatim>\<open>enabled\<close> field of that service's settings in the document
  (\<^verbatim>\<open>False\<close> when the document has no settings for the service, or the settings have no
  such field). The flag of a service is read from its settings, not from the list of
  enabled services.
\<close>

theorem status_reports_settings_flags:
  assumes "read_item c (config_id ul product_code) product_code = Inr d"
    and "map_of d ''apis'' = Some (JObj apis)"
    and "dict_or_absent d ''analytics''" and "dict_or_absent d ''tags''"
    and "dict_or_absent d ''adsense''" and "dict_or_absent d ''ads''"
  shows "get_status ul (Some c) product_code =
           Inr [(''productCode'', JStr product_code),
                (''productName'', dict_get d ''productName'' JNull),
                (''enabledServices'', dict_get apis ''enabled'' (JList [])),
                (''analytics'', enabled_flag d ''analytics''),
                (''tags'', enabled_flag d ''tags''),
                (''adsense'', enabled_flag d ''adsense''),
                (''ads'', enabled_flag d ''ads''),
                (''updatedAt'', dict_get d ''updatedAt'' JNull)]"
proof -
  have "status_of product_code d =
           Inr [(''productCode'', JStr product_code),
                (''productName'', dict_get d ''productName'' JNull),
                (''enabledServices'', dict_get apis ''enabled'' (JList [])),
                (''analytics'', enabled_flag d ''analytics''),
                (''tags'', enabled_flag d ''tags''),
                (''adsense'', enabled_flag d ''adsense''),
                (''ads'', enabled_flag d ''ads''),
                (''updatedAt'', dict_get d ''updatedAt'' JNull)]"
    unfolding status_of_def
    by (simp add: sub_get_dict [OF assms(2)] sub_get_flag assms(3-6))
  with assms(1) show ?thesis by simp
qed

text \<open>
  The scenario with \<^verbatim>\<open>enabled: true\<close> in the settings of both services: the status
  reports \<^verbatim>\<open>analytics\<close> and \<^verbatim>\<open>ads\<close> \<^verbatim>\<open>True\<close>, \<^verbatim>\<open>tags\<close> and \<^verbatim>\<open>adsense\<close> \<^verbatim>\<open>False\<close>.
\<close>

theorem status_reports_settings_flags_witness:
  "snd (enable_apis id (Some \<lparr>items = [], outage = False\<rparr>) ''GRID'' [''analytics'', ''ads'']
          [(''analytics'', JObj [(''propertyId'', JStr ''G-1''), (''enabled'', JBool True)]),
           (''ads'', JObj [(''customerId'', JStr ''123''), (''enabled'', JBool True)])]
          ''2026-01-01T00:00:00'')
   = Some \<lparr>items =
        [[(''id'', JStr ''grid-google-config''),
          (''productCode'', JStr ''GRID''),
          (''productName'', JStr ''GRID''),
          (''apis'', JObj [(''enabled'', JList [JStr ''analytics'', JStr ''ads''])]),
          (''updatedAt'', JStr ''2026-01-01T00:00:00''),
          (''analytics'', JObj [(''propertyId'', JStr ''G-1''), (''enabled'', JBool True)]),
          (''ads'', JObj [(''customerId'', JStr ''123''), (''enabled'', JBool True)])]],
      outage = False\<rparr>
   \<and> get_status id
        (Some \<lparr>items =
           [[(''id'', JStr ''grid-google-config''),
             (''productCode'', JStr ''GRID''),
             (''productName'', JStr ''GRID''),
             (''apis'', JObj [(''enabled'', JList [JStr ''analytics'', JStr ''ads''])]),
             (''updatedAt'', JStr ''2026-01-01T00:00:00''),
             (''analytics'', JObj [(''propertyId'', JStr ''G-1''), (''enabled'', JBool True)]),
             (''ads'', JObj [(''customerId'', JStr ''123''), (''enabled'', JBool True)])]],
         outage = False\<rparr>)
        ''GRID''
      = Inr [(''productCode'', JStr ''GRID''),
             (''productName'', JStr ''GRID''),
             (''enabledServices'', JList [JStr ''analytics'', JStr ''ads'']),
             (''analytics'', JBool True),
             (''tags'', JBool False),
             (''adsense'', JBool False),
             (''ads'', JBool True),
             (''updatedAt'', JStr ''2026-01-01T00:00:00'')]"
proof -
  let ?d = "[(''id'', JStr ''grid-google-config''),
             (''productCode'', JStr ''GRID''),
             (''productName'', JStr ''GRID''),
             (''apis'', JObj [(''enabled'', JList [JStr ''analytics'', JStr ''ads''])]),
             (''updatedAt'', JStr ''2026-01-01T00:00:00''),
             (''analytics'', JObj [(''propertyId'', JStr ''G-1''), (''enabled'', JBool True)]),
             (''ads'', JObj [(''customerId'', JStr ''123''), (''enabled'', JBool True)])]"
  let ?c = "\<lparr>items = [?d], outage = False\<rparr>"
  have en: "snd (enable_apis id (Some \<lparr>items = [], outage = False\<rparr>) ''GRID'' [''analytics'', ''ads'']
          [(''analytics'', JObj [(''propertyId'', JStr ''G-1''), (''enabled'', JBool True)]),
           (''ads'', JObj [(''customerId'', JStr ''123''), (''enabled'', JBool True)])]
          ''2026-01-01T00:00:00'') = Some ?c"
    by code_simp
  have r: "read_item ?c (config_id id ''GRID'') ''GRID'' = Inr ?d"
    by code_simp
  have a: "map_of ?d ''apis'' = Some (JObj [(''enabled'', JList [JStr ''analytics'', JStr ''ads''])])"
    by simp
  have s: "dict_or_absent ?d ''analytics''" "dict_or_absent ?d ''tags''"
          "dict_or_absent ?d ''adsense''" "dict_or_absent ?d ''ads''"
    by (simp_all add: dict_or_absent_def)
  from status_reports_settings_flags [OF r a s]
  have "get_status id (Some ?c) ''GRID''
      = Inr [(''productCode'', JStr ''GRID''),
             (''productName'', JStr ''GRID''),
             (''enabledServices'', JList [JStr ''analytics'', JStr ''ads'']),
             (''analytics'', JBool True),
             (''tags'', JBool False),
             (''adsense'', JBool False),
             (''ads'', JBool True),
             (''updatedAt'', JStr ''2026-01-01T00:00:00'')]"
    by (simp add: enabled_flag_def dict_get_def)
  with en show ?thesis by simp
qed

text \<open>
  C1, as stated, fails on the scenario it names: after
  \<^verbatim>\<open>enable("GRID", [analytics, ads], {analytics: {propertyId: "G-1"}, ads: {customerId: "123"}})\<close>
  the status lists \<^verbatim>\<open>analytics\<close> and \<^verbatim>\<open>ads\<close> as enabled services and reports all four
  flags \<^verbatim>\<open>False\<close>, since neither settings object has an \<^verbatim>\<open>enabled\<close> field.
\<close>

theorem status_after_enable_counterexample:
  "get_status id
     (snd (enable_apis id (Some \<lparr>items = [], outage = False\<rparr>) ''GRID'' [''analytics'', ''ads'']
             [(''analytics'', JObj [(''propertyId'', JStr ''G-1'')]),
              (''ads'', JObj [(''customerId'', JStr ''123'')])]
             ''2026-01-01T00:00:00''))
     ''GRID''
   = Inr [(''productCode'', JStr ''GRID''),
          (''productName'', JStr ''GRID''),
          (''enabledServices'', JList [JStr ''analytics'', JStr ''ads'']),
          (''analytics'', JBool False),
          (''tags'', JBool False),
          (''adsense'', JBool False),
          (''ads'', JBool False),
          (''updatedAt'', JStr ''2026-01-01T00:00:00'')]"
  by code_simp

text \<open>
  C2. On a store that answers, \<open>enable_apis\<close> leaves, as the product's document, the
  document it builds from its arguments and the clock alone, whatever the container held:
  the enabled services of that document are the services of the call, and a service
  name that is not among them has no settings in it. A second call therefore leaves the
  document of the second call only (after \<^verbatim>\<open>enable(P, [analytics], cfgA)\<close> and
  \<^verbatim>\<open>enable(P, [tags], cfgB)\<close> the enabled services are \<^verbatim>\<open>[tags]\<close>), and two calls with the
  same arguments build the same document up to \<^verbatim>\<open>updatedAt\<close>.
\<close>

theorem enable_replaces_document:
  assumes "\<not> outage c"
  shows "stored_config ul (snd (enable_apis ul (Some c) pc services config now)) pc
           = Some (product_config ul pc services config now)
         \<and> enabled_services (product_config ul pc services config now) = map JStr services
         \<and> (\<forall>s \<in> set known_services. s \<notin> set services \<longrightarrow>
               map_of (product_config ul pc services config now) s = None)
         \<and> stored_config ul
              (snd (enable_apis ul (snd (enable_apis ul (Some c) pc services0 config0 now0))
                      pc services config now)) pc
           = Some (product_config ul pc services config now)
         \<and> product_config ul pc services config now
           = AList.update ''updatedAt'' (JStr now) (product_config ul pc services config now0)"
proof -
  obtain c1 where c1: "snd (enable_apis ul (Some c) pc services0 config0 now0) = Some c1"
    and o1: "\<not> outage c1"
    unfolding enable_apis_ok [OF assms] using assms by simp
  have a: "stored_config ul (snd (enable_apis ul (Some c) pc services config now)) pc
           = Some (product_config ul pc services config now)"
    by (rule stored_after_enable [OF assms])
  have b: "enabled_services (product_config ul pc services config now) = map JStr services"
    by (rule enabled_services_product_config)
  have d: "\<forall>s \<in> set known_services. s \<notin> set services \<longrightarrow>
               map_of (product_config ul pc services config now) s = None"
    by (simp add: map_of_product_config_service)
  have e: "stored_config ul
              (snd (enable_apis ul (snd (enable_apis ul (Some c) pc services0 config0 now0))
                      pc services config now)) pc
           = Some (product_config ul pc services config now)"
    unfolding c1 by (rule stored_after_enable [OF o1])
  have f: "product_config ul pc services config now
           = AList.update ''updatedAt'' (JStr now) (product_config ul pc services config now0)"
    by (rule product_config_clock)
  from a b d e f show ?thesis by (intro conjI)
qed

theorem enable_replaces_document_witness:
  "stored_config id
     (snd (enable_apis id
             (snd (enable_apis id (Some \<lparr>items = [], outage = False\<rparr>) ''P'' [''analytics'']
                     [(''analytics'', JObj [(''propertyId'', JStr ''G-1'')])] ''t1''))
             ''P'' [''tags''] [(''tags'', JObj [(''containerId'', JStr ''GTM-1'')])] ''t2''))
     ''P''
   = Some [(''id'', JStr ''p-google-config''),
           (''productCode'', JStr ''P''),
           (''productName'', JStr ''P''),
           (''apis'', JObj [(''enabled'', JList [JStr ''tags''])]),
           (''updatedAt'', JStr ''t2''),
           (''tags'', JObj [(''containerId'', JStr ''GTM-1'')])]"
proof -
  have "\<not> outage \<lparr>items = [], outage = False\<rparr>" by simp
  from enable_replaces_document [OF this, where ul = id and pc = "''P''"
         and services = "[''tags'']"
         and config = "[(''tags'', JObj [(''containerId'', JStr ''GTM-1'')])]" and now = "''t2''"
         and services0 = "[''analytics'']"
         and config0 = "[(''analytics'', JObj [(''propertyId'', JStr ''G-1'')])]"
         and now0 = "''t1''"]
  have "stored_config id
     (snd (enable_apis id
             (snd (enable_apis id (Some \<lparr>items = [], outage = False\<rparr>) ''P'' [''analytics'']
                     [(''analytics'', JObj [(''propertyId'', JStr ''G-1'')])] ''t1''))
             ''P'' [''tags''] [(''tags'', JObj [(''containerId'', JStr ''GTM-1'')])] ''t2''))
     ''P'' = Some (product_config id ''P'' [''tags'']
                [(''tags'', JObj [(''containerId'', JStr ''GTM-1'')])] ''t2'')"
    by blast
  moreover have "product_config id ''P'' [''tags'']
                [(''tags'', JObj [(''containerId'', JStr ''GTM-1'')])] ''t2''
     = [(''id'', JStr ''p-google-config''),
           (''productCode'', JStr ''P''),
           (''productName'', JStr ''P''),
           (''apis'', JObj [(''enabled'', JList [JStr ''tags''])]),
           (''updatedAt'', JStr ''t2''),
           (''tags'', JObj [(''containerId'', JStr ''GTM-1'')])]"
    by code_simp
  ultimately show ?thesis by simp
qed

text \<open>
  C4, as the code has it. \<open>enable_apis\<close> does not check the services against the four
  service names: on a store that answers it succeeds for every list of services, and the
  document it stores lists the services of the call as they were passed. A name outside
  the four gets no settings entry in the document.
\<close>

theorem enable_accepts_any_service_name:
  assumes "\<not> outage c"
  shows "fst (enable_apis ul (Some c) pc services config now) =
           Inr [(''success'', JBool True),
                (''productCode'', JStr pc),
                (''enabledServices'', JList (map JStr services)),
                (''configId'', JStr (config_id ul pc))]
         \<and> stored_config ul (snd (enable_apis ul (Some c) pc services config now)) pc
           = Some (product_config ul pc services config now)
         \<and> enabled_services (product_config ul pc services config now) = map JStr services
         \<and> (\<forall>s \<in> set services.
               s \<notin> set known_services \<longrightarrow>
               s \<notin> set [''id'', ''productCode'', ''productName'', ''apis'', ''updatedAt''] \<longrightarrow>
               map_of (product_config ul pc services config now) s = None)"
proof -
  have a: "fst (enable_apis ul (Some c) pc services config now) =
           Inr [(''success'', JBool True),
                (''productCode'', JStr pc),
                (''enabledServices'', JList (map JStr services)),
                (''configId'', JStr (config_id ul pc))]"
    unfolding enable_apis_ok [OF assms] by simp
  have b: "stored_config ul (snd (enable_apis ul (Some c) pc services config now)) pc
           = Some (product_config ul pc services config now)"
    by (rule stored_after_enable [OF assms])
  have d: "enabled_services (product_config ul pc services config now) = map JStr services"
    by (rule enabled_services_product_config)
  have e: "\<forall>s \<in> set services.
               s \<notin> set known_services \<longrightarrow>
               s \<notin> set [''id'', ''productCode'', ''productName'', ''apis'', ''updatedAt''] \<longrightarrow>
               map_of (product_config ul pc services config now) s = None"
    by (auto simp: known_services_def product_config_def map_of_add_service)
  from a b d e show ?thesis by (intro conjI)
qed

theorem enable_accepts_any_service_name_witness:
  "fst (enable_apis id (Some \<lparr>items = [], outage = False\<rparr>) ''P'' [''foo'', ''analytics''] [] ''t1'')
     = Inr [(''success'', JBool True),
            (''productCode'', JStr ''P''),
            (''enabledServices'', JList [JStr ''foo'', JStr ''analytics'']),
            (''configId'', JStr ''p-google-config'')]
   \<and> enabled_services (product_config id ''P'' [''foo'', ''analytics''] [] ''t1'')
     = [JStr ''foo'', JStr ''analytics'']"
proof -
  have c: "config_id id ''P'' = ''p-google-config''" by code_simp
  have "\<not> outage \<lparr>items = [], outage = False\<rparr>" by simp
  from enable_accepts_any_service_name [OF this, where ul = id and pc = "''P''"
         and services = "[''foo'', ''analytics'']" and config = "[]" and now = "''t1''"]
  show ?thesis by (simp add: c)
qed

text \<open>
  C4, as stated, fails: a call with the unknown service name \<^verbatim>\<open>foo\<close> succeeds, and the
  document that reaches the store lists \<^verbatim>\<open>foo\<close> as enabled.
\<close>

theorem enable_unknown_service_counterexample:
  "enable_apis id (Some \<lparr>items = [], outage = False\<rparr>) ''P'' [''foo''] [] ''t1''
   = (Inr [(''success'', JBool True),
           (''productCode'', JStr ''P''),
           (''enabledServices'', JList [JStr ''foo'']),
           (''configId'', JStr ''p-google-config'')],
      Some \<lparr>items =
              [[(''id'', JStr ''p-google-config''),
                (''productCode'', JStr ''P''),
                (''productName'', JStr ''P''),
                (''apis'', JObj [(''enabled'', JList [JStr ''foo''])]),
                (''updatedAt'', JStr ''t1'')]],
            outage = False\<rparr>)"
  by code_simp

text \<open>
  C3, as the code has it. A document written by \<open>enable_apis\<close> has settings only for
  services it lists as enabled. A document written by \<open>disable_apis\<close> has, for each of
  the four service names, the settings of the document that was read, those of the
  services the call removes from the list included: \<open>disable_apis\<close> changes the list
  and leaves the settings in place.
\<close>

theorem settings_kept_by_disable:
  "(\<not> outage c \<longrightarrow>
      stored_config ul (snd (enable_apis ul (Some c) pc services config now)) pc
        = Some (product_config ul pc services config now)
      \<and> settings_within_enabled (product_config ul pc services config now))
   \<and> (read_item c (config_id ul pc) pc = Inr d
        \<and> fst (disable_apis ul (Some c) pc services now) = Inr r \<longrightarrow>
        (\<exists>d'. stored_config ul (snd (disable_apis ul (Some c) pc services now)) pc = Some d'
              \<and> (\<forall>s \<in> set known_services. map_of d' s = map_of d s)))"
proof (intro conjI impI)
  assume "\<not> outage c"
  then show "stored_config ul (snd (enable_apis ul (Some c) pc services config now)) pc
        = Some (product_config ul pc services config now)"
    by (rule stored_after_enable)
next
  show "settings_within_enabled (product_config ul pc services config now)"
    by (rule settings_within_enabled_product_config)
next
  assume h: "read_item c (config_id ul pc) pc = Inr d
        \<and> fst (disable_apis ul (Some c) pc services now) = Inr r"
  then obtain xs d' c' where
        rc: "reduced_config d (filter (\<lambda>s. \<not> py_in s services) xs) now = Inr d'"
    and up: "upsert_item c d' = Inr c'"
    and st: "snd (disable_apis ul (Some c) pc services now) = Some c'"
    using disable_apis_success [of ul c pc services now r] by auto
  have k: "doc_key d' = Some (pc, config_id ul pc)"
    using doc_key_reduced_config [OF rc] read_item_found(2) [of c "config_id ul pc" pc d] h
    by simp
  have "stored_config ul (Some c') pc = Some d'"
    using read_after_upsert [OF up k] by (simp add: stored_config_def)
  moreover have "\<forall>s \<in> set known_services. map_of d' s = map_of d s"
    using reduced_config_frame [OF rc] by (simp add: known_services_def)
  ultimately
  show "\<exists>d'. stored_config ul (snd (disable_apis ul (Some c) pc services now)) pc = Some d'
              \<and> (\<forall>s \<in> set known_services. map_of d' s = map_of d s)"
    unfolding st by blast
qed

theorem settings_kept_by_disable_witness:
  "settings_within_enabled
     (product_config id ''P'' [''analytics''] [(''analytics'', JObj [(''propertyId'', JStr ''G-1'')])] ''t2'')
   \<and> (\<exists>d'. stored_config id
             (snd (disable_apis id
                (Some \<lparr>items =
                   [[(''id'', JStr ''p-google-config''),
                     (''productCode'', JStr ''P''),
                     (''productName'', JStr ''P''),
                     (''apis'', JObj [(''enabled'', JList [JStr ''analytics'', JStr ''tags''])]),
                     (''updatedAt'', JStr ''t1''),
                     (''analytics'', JObj [(''propertyId'', JStr ''G-1'')]),
                     (''tags'', JObj [(''containerId'', JStr ''GTM-1'')])]],
                  outage = False\<rparr>)
                ''P'' [''analytics''] ''t2''))
             ''P'' = Some d'
           \<and> map_of d' ''analytics'' = Some (JObj [(''propertyId'', JStr ''G-1'')])
           \<and> map_of d' ''tags'' = Some (JObj [(''containerId'', JStr ''GTM-1'')]))"
proof -
  let ?d = "[(''id'', JStr ''p-google-config''),
             (''productCode'', JStr ''P''),
             (''productName'', JStr ''P''),
             (''apis'', JObj [(''enabled'', JList [JStr ''analytics'', JStr ''tags''])]),
             (''updatedAt'', JStr ''t1''),
             (''analytics'', JObj [(''propertyId'', JStr ''G-1'')]),
             (''tags'', JObj [(''containerId'', JStr ''GTM-1'')])]"
  let ?c = "\<lparr>items = [?d], outage = False\<rparr>"
  let ?r = "[(''success'', JBool True), (''productCode'', JStr ''P''),
             (''disabledServices'', JList [JStr ''analytics'']),
             (''remainingServices'', JList [JStr ''tags''])]"
  have o: "\<not> outage ?c" by simp
  have r: "read_item ?c (config_id id ''P'') ''P'' = Inr ?d" by code_simp
  have f: "fst (disable_apis id (Some ?c) ''P'' [''analytics''] ''t2'') = Inr ?r" by code_simp
  from settings_kept_by_disable [where ul = id and c = ?c and pc = "''P''"
         and services = "[''analytics'']"
         and config = "[(''analytics'', JObj [(''propertyId'', JStr ''G-1'')])]"
         and now = "''t2''" and d = ?d and r = ?r] o r f
  have 1: "settings_within_enabled
     (product_config id ''P'' [''analytics''] [(''analytics'', JObj [(''propertyId'', JStr ''G-1'')])] ''t2'')"
    and 2: "\<exists>d'. stored_config id (snd (disable_apis id (Some ?c) ''P'' [''analytics''] ''t2'')) ''P'' = Some d'
              \<and> (\<forall>s \<in> set known_services. map_of d' s = map_of ?d s)"
    by blast+
  from 2 obtain d' where
    "stored_config id (snd (disable_apis id (Some ?c) ''P'' [''analytics''] ''t2'')) ''P'' = Some d'"
    and "\<forall>s \<in> set known_services. map_of d' s = map_of ?d s"
    by blast
  then have "stored_config id (snd (disable_apis id (Some ?c) ''P'' [''analytics''] ''t2'')) ''P'' = Some d'
     \<and> map_of d' ''analytics'' = Some (JObj [(''propertyId'', JStr ''G-1'')])
     \<and> map_of d' ''tags'' = Some (JObj [(''containerId'', JStr ''GTM-1'')])"
    by (simp add: known_services_def)
  with 1 show ?thesis by blast
qed

text \<open>
  C3, as stated, fails for \<open>disable_apis\<close>: after \<^verbatim>\<open>enable(P, [analytics], ...)\<close> and
  \<^verbatim>\<open>disable(P, [analytics])\<close> the stored document lists no enabled service and still
  holds the settings of \<^verbatim>\<open>analytics\<close>.
\<close>

theorem settings_after_disable_counterexample:
  "stored_config id
     (snd (disable_apis id
             (snd (enable_apis id (Some \<lparr>items = [], outage = False\<rparr>) ''P'' [''analytics'']
                     [(''analytics'', JObj [(''propertyId'', JStr ''G-1'')])] ''t1''))
             ''P'' [''analytics''] ''t2''))
     ''P''
   = Some [(''id'', JStr ''p-google-config''),
           (''productCode'', JStr ''P''),
           (''productName'', JStr ''P''),
           (''apis'', JObj [(''enabled'', JList [])]),
           (''updatedAt'', JStr ''t2''),
           (''analytics'', JObj [(''propertyId'', JStr ''G-1'')])]
   \<and> \<not> settings_within_enabled
          [(''id'', JStr ''p-google-config''),
           (''productCode'', JStr ''P''),
           (''productName'', JStr ''P''),
           (''apis'', JObj [(''enabled'', JList [])]),
           (''updatedAt'', JStr ''t2''),
           (''analytics'', JObj [(''propertyId'', JStr ''G-1'')])]"
  by code_simp



text \<open>
  C9. For a stored document whose \<^verbatim>\<open>apis.enabled\<close> is a list of service names,
  \<open>disable_apis\<close> writes back, under the same key, a document whose enabled services
  are the former ones without the names of the call, in their former order, and whose
  \<^verbatim>\<open>updatedAt\<close> is the time of the call. Every other entry of the document (\<^verbatim>\<open>id\<close>,
  \<^verbatim>\<open>productCode\<close>, \<^verbatim>\<open>productName\<close>, the settings of each service) and every other field
  of \<^verbatim>\<open>apis\<close> is as it was, and so is every other document of the container.
\<close>

theorem disable_removes_named_services:
  assumes "read_item c (config_id ul pc) pc = Inr d"
    and "map_of d ''apis'' = Some (JObj apis)"
    and "map_of apis ''enabled'' = Some (JList (map JStr names))"
  shows "\<exists>c' d' apis'.
           snd (disable_apis ul (Some c) pc services now) = Some c'
           \<and> read_item c' (config_id ul pc) pc = Inr d'
           \<and> enabled_services d' = map JStr (filter (\<lambda>n. n \<notin> set services) names)
           \<and> map_of d' ''updatedAt'' = Some (JStr now)
           \<and> (\<forall>k. k \<noteq> ''apis'' \<longrightarrow> k \<noteq> ''updatedAt'' \<longrightarrow> map_of d' k = map_of d k)
           \<and> map_of d' ''apis'' = Some (JObj apis')
           \<and> (\<forall>k. k \<noteq> ''enabled'' \<longrightarrow> map_of apis' k = map_of apis k)
           \<and> (\<forall>p i. (p, i) \<noteq> (pc, config_id ul pc) \<longrightarrow> read_item c' i p = read_item c i p)"
proof -
  let ?en = "filter (\<lambda>s. \<not> py_in s services) (map JStr names)"
  let ?apis' = "AList.update ''enabled'' (JList ?en) apis"
  let ?d' = "AList.update ''updatedAt'' (JStr now) (AList.update ''apis'' (JObj ?apis') d)"
  from stored_after_disable [OF assms, of services now]
  obtain c' where 1: "snd (disable_apis ul (Some c) pc services now) = Some c'"
    and 2: "read_item c' (config_id ul pc) pc = Inr ?d'"
    and 3: "\<forall>p i. (p, i) \<noteq> (pc, config_id ul pc) \<longrightarrow> read_item c' i p = read_item c i p"
    by blast
  have 4: "enabled_services ?d' = map JStr (filter (\<lambda>n. n \<notin> set services) names)"
    by (simp add: enabled_services_def update_conv' filter_py_in_names)
  have 5: "map_of ?d' ''updatedAt'' = Some (JStr now)"
    by (simp add: update_conv')
  have 6: "\<forall>k. k \<noteq> ''apis'' \<longrightarrow> k \<noteq> ''updatedAt'' \<longrightarrow> map_of ?d' k = map_of d k"
    by (simp add: update_conv')
  have 7: "map_of ?d' ''apis'' = Some (JObj ?apis')"
    by (simp add: update_conv')
  have 8: "\<forall>k. k \<noteq> ''enabled'' \<longrightarrow> map_of ?apis' k = map_of apis k"
    by (simp add: update_conv')
  from 1 2 3 4 5 6 7 8 show ?thesis by blast
qed

theorem disable_removes_named_services_witness:
  "\<exists>c' d'.
     snd (disable_apis id
            (Some \<lparr>items =
               [[(''id'', JStr ''p-google-config''),
                 (''productCode'', JStr ''P''),
                 (''productName'', JStr ''Product P''),
                 (''apis'', JObj [(''enabled'', JList [JStr ''analytics'', JStr ''tags''])]),
                 (''updatedAt'', JStr ''t1''),
                 (''analytics'', JObj [(''propertyId'', JStr ''G-1'')]),
                 (''tags'', JObj [(''containerId'', JStr ''GTM-1'')])]],
              outage = False\<rparr>)
            ''P'' [''analytics''] ''t2'') = Some c'
     \<and> read_item c' ''p-google-config'' ''P'' = Inr d'
     \<and> enabled_services d' = [JStr ''tags'']
     \<and> map_of d' ''updatedAt'' = Some (JStr ''t2'')
     \<and> map_of d' ''tags'' = Some (JObj [(''containerId'', JStr ''GTM-1'')])
     \<and> map_of d' ''productName'' = Some (JStr ''Product P'')
     \<and> map_of d' ''id'' = Some (JStr ''p-google-config'')
     \<and> map_of d' ''productCode'' = Some (JStr ''P'')"
proof -
  let ?d = "[(''id'', JStr ''p-google-config''),
             (''productCode'', JStr ''P''),
             (''productName'', JStr ''Product P''),
             (''apis'', JObj [(''enabled'', JList [JStr ''analytics'', JStr ''tags''])]),
             (''updatedAt'', JStr ''t1''),
             (''analytics'', JObj [(''propertyId'', JStr ''G-1'')]),
             (''tags'', JObj [(''containerId'', JStr ''GTM-1'')])]"
  let ?c = "\<lparr>items = [?d], outage = False\<rparr>"
  have k: "config_id id ''P'' = ''p-google-config''" by code_simp
  have r: "read_item ?c (config_id id ''P'') ''P'' = Inr ?d" by code_simp
  have a: "map_of ?d ''apis'' = Some (JObj [(''enabled'', JList [JStr ''analytics'', JStr ''tags''])])"
    by simp
  have e: "map_of [(''enabled'', JList [JStr ''analytics'', JStr ''tags''])] ''enabled''
             = Some (JList (map JStr [''analytics'', ''tags'']))"
    by simp
  from disable_removes_named_services [OF r a e, of "[''analytics'']" "''t2''"]
  show ?thesis
    apply (elim exE conjE)
    subgoal for c' d' apis'
      apply (rule exI [of _ c'], rule exI [of _ d'])
      apply (simp add: k)
      done
    done
qed

text \<open>
  C10. For a stored document with a list under \<^verbatim>\<open>apis.enabled\<close>, \<open>disable_apis\<close>
  succeeds whatever services are named, enabled or not, and returns as
  \<^verbatim>\<open>remainingServices\<close> the former list without the members of the services of the call,
  the entries that remain in their former order. When none of the named services is
  in the list, the list is returned as it was.
\<close>

theorem disable_ignores_absent_services:
  assumes "read_item c (config_id ul pc) pc = Inr d"
    and "map_of d ''apis'' = Some (JObj apis)"
    and "map_of apis ''enabled'' = Some (JList xs)"
  shows "fst (disable_apis ul (Some c) pc services now) =
           Inr [(''success'', JBool True),
                (''productCode'', JStr pc),
                (''disabledServices'', JList (map JStr services)),
                (''remainingServices'', JList (filter (\<lambda>s. \<not> py_in s services) xs))]
         \<and> ((\<forall>n \<in> set services. JStr n \<notin> set xs) \<longrightarrow>
               filter (\<lambda>s. \<not> py_in s services) xs = xs)
         \<and> (xs = map JStr names \<longrightarrow>
               filter (\<lambda>s. \<not> py_in s services) xs
                 = map JStr (filter (\<lambda>n. n \<notin> set services) names))"
proof -
  have 1: "fst (disable_apis ul (Some c) pc services now) =
           Inr [(''success'', JBool True),
                (''productCode'', JStr pc),
                (''disabledServices'', JList (map JStr services)),
                (''remainingServices'', JList (filter (\<lambda>s. \<not> py_in s services) xs))]"
    unfolding disable_apis_ok [OF assms] by simp
  have 2: "(\<forall>n \<in> set services. JStr n \<notin> set xs) \<longrightarrow>
               filter (\<lambda>s. \<not> py_in s services) xs = xs"
    by (auto simp: filter_id_conv py_in_iff)
  have 3: "xs = map JStr names \<longrightarrow>
               filter (\<lambda>s. \<not> py_in s services) xs
                 = map JStr (filter (\<lambda>n. n \<notin> set services) names)"
    by (simp add: filter_py_in_names)
  from 1 2 3 show ?thesis by (intro conjI)
qed

theorem disable_ignores_absent_services_witness:
  "fst (disable_apis id
          (Some \<lparr>items =
             [[(''id'', JStr ''p-google-config''),
               (''productCode'', JStr ''P''),
               (''productName'', JStr ''P''),
               (''apis'', JObj [(''enabled'', JList [JStr ''analytics'', JStr ''tags''])]),
               (''updatedAt'', JStr ''t1'')]],
            outage = False\<rparr>)
          ''P'' [''ads'', ''analytics'', ''unknown''] ''t2'')
   = Inr [(''success'', JBool True),
          (''productCode'', JStr ''P''),
          (''disabledServices'', JList [JStr ''ads'', JStr ''analytics'', JStr ''unknown'']),
          (''remainingServices'', JList [JStr ''tags''])]"
proof -
  let ?d = "[(''id'', JStr ''p-google-config''),
             (''productCode'', JStr ''P''),
             (''productName'', JStr ''P''),
             (''apis'', JObj [(''enabled'', JList [JStr ''analytics'', JStr ''tags''])]),
             (''updatedAt'', JStr ''t1'')]"
  let ?c = "\<lparr>items = [?d], outage = False\<rparr>"
  have r: "read_item ?c (config_id id ''P'') ''P'' = Inr ?d" by code_simp
  have a: "map_of ?d ''apis'' = Some (JObj [(''enabled'', JList [JStr ''analytics'', JStr ''tags''])])"
    by simp
  have e: "map_of [(''enabled'', JList [JStr ''analytics'', JStr ''tags''])] ''enabled''
             = Some (JList [JStr ''analytics'', JStr ''tags''])"
    by simp
  from disable_ignores_absent_services [OF r a e, of "[''ads'', ''analytics'', ''unknown'']" "''t2''"]
  show ?thesis by simp
qed

end
